theory Spec2Isabelle
  imports Main
begin

section \<open>Console redirection of marimo: \<^verbatim>\<open>marimo/_messaging/streams.py\<close>\<close>

text \<open>
  The module is embedded call by call. A call runs on one thread; what the other threads
  may have done before it is part of the state it starts from (a lock may be held, the
  input queue may be empty). Every effect a call has on the world outside its own frame
  (taking or leaving a lock, appending to the console buffer, notifying the condition,
  writing to \<^verbatim>\<open>sys.stderr\<close>, sending on the pipe, logging) is appended, in program
  order, to a trace of events kept beside the state.
\<close>

subsection \<open>Python values, exceptions and results\<close>

text \<open>
  A Python \<^verbatim>\<open>str\<close> is a sequence of code points and \<^verbatim>\<open>len\<close> counts them; it is
  modelled as a \<^typ>\<open>string\<close> with one \<^typ>\<open>char\<close> standing for one code point. The
  arguments of the sinks are Python objects, of which only the str ones are accepted.
\<close>

datatype py_value =
    PyStr string
  | PyBytes "char list"
  | PyInt int
  | PyNone
  | PyObj string  \<comment> \<open>an instance of any other class, with the class's name\<close>

fun type_name :: "py_value \<Rightarrow> string" where
  "type_name (PyStr _) = ''str''"
| "type_name (PyBytes _) = ''bytes''"
| "type_name (PyInt _) = ''int''"
| "type_name PyNone = ''NoneType''"
| "type_name (PyObj n) = n"

text \<open>
  The exceptions the module raises, catches or lets through. \<open>OSError\<close> stands for
  the class and its subclasses (\<^verbatim>\<open>BrokenPipeError\<close> among them), \<open>OtherException\<close>
  for any other subclass of \<^verbatim>\<open>Exception\<close>, and \<open>BaseExceptionOnly\<close> for the classes
  that derive from \<^verbatim>\<open>BaseException\<close> but not from \<^verbatim>\<open>Exception\<close>
  (\<^verbatim>\<open>KeyboardInterrupt\<close>, \<^verbatim>\<open>SystemExit\<close>, \<^verbatim>\<open>GeneratorExit\<close>).
\<close>

datatype exn =
    AssertionError
  | TypeError string
  | AttributeError string
  | OSError string
  | ContextNotInitializedError
  | UnicodeDecodeError
  | QueueFull
  | OtherException string
  | BaseExceptionOnly string

fun isinstance_OSError :: "exn \<Rightarrow> bool" where
  "isinstance_OSError (OSError _) = True"
| "isinstance_OSError _ = False"

fun isinstance_Exception :: "exn \<Rightarrow> bool" where
  "isinstance_Exception (BaseExceptionOnly _) = False"
| "isinstance_Exception _ = True"

text \<open>
  A call returns a value, raises, or never returns: \<open>Blocked\<close> is the call that waits
  for a lock another thread holds, or for an item of an empty queue.
\<close>

datatype 'a result = Return 'a | Raise exn | Blocked

text \<open>\<^verbatim>\<open>s[:n]\<close>: a negative bound counts from the end of the string.\<close>

definition py_slice_to :: "int \<Rightarrow> string \<Rightarrow> string" where
  "py_slice_to n s =
     (if 0 \<le> n then take (nat n) s else take (nat (int (length s) + n)) s)"

text \<open>\<^verbatim>\<open>s.split("\n")\<close>: every newline separates, and empty pieces are kept.\<close>

fun split_on :: "char \<Rightarrow> string \<Rightarrow> string \<Rightarrow> string list" where
  "split_on sep acc [] = [rev acc]"
| "split_on sep acc (c # cs) =
     (if c = sep then rev acc # split_on sep [] cs else split_on sep (c # acc) cs)"

definition split_newline :: "string \<Rightarrow> string list" where
  "split_newline s = split_on (CHR 0x0A) [] s"

subsection \<open>The configured limits\<close>

record RuntimeConfig =
  cfg_output_max_bytes :: int
  cfg_std_stream_max_bytes :: int

record MarimoConfig =
  runtime :: RuntimeConfig

record RuntimeContext =
  marimo_config :: MarimoConfig

text \<open>
  Modelled from the spec: \<^verbatim>\<open>marimo._runtime.context.get_context\<close> is not part of the
  module. The settings are "retrieved from a process-wide runtime context", which is
  either initialized or not; asking for it before it is initialized raises
  \<^verbatim>\<open>ContextNotInitializedError\<close>. The configuration is a typed dictionary in which both
  settings are present, hence a record.
\<close>

definition get_context :: "RuntimeContext option \<Rightarrow> exn + RuntimeContext" where
  "get_context g = (case g of None \<Rightarrow> Inl ContextNotInitializedError | Some ctx \<Rightarrow> Inr ctx)"

definition output_max_bytes :: "RuntimeContext option \<Rightarrow> exn + int" where
  "output_max_bytes g =
     (case get_context g of
        Inr ctx \<Rightarrow> Inr (cfg_output_max_bytes (runtime (marimo_config ctx)))
      | Inl e \<Rightarrow> (if e = ContextNotInitializedError then Inr 5000000 else Inl e))"

definition std_stream_max_bytes :: "RuntimeContext option \<Rightarrow> exn + int" where
  "std_stream_max_bytes g =
     (case get_context g of
        Inr ctx \<Rightarrow> Inr (cfg_std_stream_max_bytes (runtime (marimo_config ctx)))
      | Inl e \<Rightarrow> (if e = ContextNotInitializedError then Inr 1000000 else Inl e))"

subsection \<open>The shared stream and the world around it\<close>

type_synonym CellId_t = string

datatype CellChannel = STDOUT | STDERR | STDIN

record ConsoleMsg =
  msg_stream :: CellChannel
  msg_cell_id :: CellId_t
  msg_data :: string
  msg_mimetype :: string

datatype lock_id = StreamLock | ConsoleMsgCv

datatype 'd event =
    Acquire lock_id
  | Release lock_id
  | QueueAppend "ConsoleMsg option"
  | Notify
  | SysStderrWrite string
  | PipeSend string 'd
  | LogDebug string exn
  | InputQueueGet string

text \<open>
  The attributes of \<^verbatim>\<open>ThreadSafeStream\<close>, then the two globals of the process the
  module reads (the runtime context) and the trace. A lock is \<open>True\<close> while some thread
  holds it. \<^verbatim>\<open>console_msg_cv\<close> and \<^verbatim>\<open>console_msg_queue\<close> are attributes of the
  object only when \<^verbatim>\<open>redirect_console\<close> was set at construction; reading them
  otherwise raises \<^verbatim>\<open>AttributeError\<close>. The buffer holds messages and the sentinel
  \<^verbatim>\<open>None\<close>.
\<close>

record ('p, 'd) world =
  pipe :: 'p
  cell_id :: "CellId_t option"
  redirect_console :: bool
  stream_lock :: bool
  console_msg_cv :: bool
  console_msg_queue :: "ConsoleMsg option list"
  input_queue :: "string list"
  runtime_context :: "RuntimeContext option"
  trace :: "'d event list"

definition emit :: "'d event \<Rightarrow> ('p, 'd) world \<Rightarrow> ('p, 'd) world" where
  "emit e w = w\<lparr>trace := trace w @ [e]\<rparr>"

text \<open>
  \<^verbatim>\<open>QueuePipe\<close>: a pipe over a queue. \<^verbatim>\<open>put_nowait\<close> raises \<^verbatim>\<open>queue.Full\<close> when
  the queue is bounded (\<open>maxsize > 0\<close>) and full.
\<close>

record 'm QueuePipe =
  qp_queue :: "'m list"
  qp_maxsize :: nat

definition QueuePipe_send :: "'m QueuePipe \<Rightarrow> 'm \<Rightarrow> exn option \<times> 'm QueuePipe" where
  "QueuePipe_send p obj =
     (if 0 < qp_maxsize p \<and> qp_maxsize p \<le> length (qp_queue p) then (Some QueueFull, p)
      else (None, p\<lparr>qp_queue := qp_queue p @ [obj]\<rparr>))"

text \<open>
  \<^verbatim>\<open>ThreadSafeStream.write\<close>. The pipe is any object with a \<^verbatim>\<open>send\<close>: its state is
  \<open>'p\<close> and \<open>send\<close> gives the exception it raises, if any, and its next state.
\<close>

definition ThreadSafeStream_write ::
  "('p \<Rightarrow> string \<times> 'd \<Rightarrow> exn option \<times> 'p) \<Rightarrow> string \<Rightarrow> 'd \<Rightarrow> ('p, 'd) world
     \<Rightarrow> unit result \<times> ('p, 'd) world" where
  "ThreadSafeStream_write send op dat w =
     (if stream_lock w then (Blocked, w)
      else
        let w1 = emit (Acquire StreamLock) (w\<lparr>stream_lock := True\<rparr>);
            (r, p') = send (pipe w1) (op, dat);
            w2 = emit (PipeSend op dat) (w1\<lparr>pipe := p'\<rparr>);
            (res, w3) =
              (case r of
                 None \<Rightarrow> (Return (), w2)
               | Some e \<Rightarrow>
                   (if isinstance_OSError e then (Return (), emit (LogDebug op e) w2)
                    else (Raise e, w2)))
        in (res, emit (Release StreamLock) (w3\<lparr>stream_lock := False\<rparr>)))"

text \<open>
  \<^verbatim>\<open>with self.console_msg_cv: body\<close>, for a body that cannot raise: the calls below only
  append to the buffer and notify inside it.
\<close>

definition with_console_msg_cv ::
  "(('p, 'd) world \<Rightarrow> ('p, 'd) world) \<Rightarrow> ('p, 'd) world \<Rightarrow> unit result \<times> ('p, 'd) world" where
  "with_console_msg_cv body w =
     (if \<not> redirect_console w then (Raise (AttributeError ''console_msg_cv''), w)
      else if console_msg_cv w then (Blocked, w)
      else
        let w1 = emit (Acquire ConsoleMsgCv) (w\<lparr>console_msg_cv := True\<rparr>);
            w2 = body w1
        in (Return (), emit (Release ConsoleMsgCv) (w2\<lparr>console_msg_cv := False\<rparr>)))"

definition queue_append :: "ConsoleMsg option \<Rightarrow> ('p, 'd) world \<Rightarrow> ('p, 'd) world" where
  "queue_append m w = emit (QueueAppend m) (w\<lparr>console_msg_queue := console_msg_queue w @ [m]\<rparr>)"

definition notify :: "('p, 'd) world \<Rightarrow> ('p, 'd) world" where
  "notify w = emit Notify w"

text \<open>\<^verbatim>\<open>ThreadSafeStream.stop\<close>.\<close>

definition ThreadSafeStream_stop :: "('p, 'd) world \<Rightarrow> unit result \<times> ('p, 'd) world" where
  "ThreadSafeStream_stop w =
     (if redirect_console w then with_console_msg_cv notify (queue_append None w)
      else (Return (), w))"

subsection \<open>The sinks\<close>

definition truncation_warning :: string where
  "truncation_warning = ''Warning: marimo truncated a very large console output.'' @ [CHR 0x0A]"

definition truncation_marker :: string where
  "truncation_marker = '' ... ''"

text \<open>
  \<^verbatim>\<open>ThreadSafeStdout._write_with_mimetype\<close>. \<^verbatim>\<open>sys.getsizeof\<close> belongs to the
  interpreter and is a parameter. \<^verbatim>\<open>sys.stderr\<close> is taken to be a text stream that
  accepts the warning; the write is an event of the trace. The \<^verbatim>\<open>assert\<close> is
  checked, as it is unless the interpreter runs with \<^verbatim>\<open>-O\<close>.
\<close>

definition ThreadSafeStdout_write_with_mimetype ::
  "(string \<Rightarrow> int) \<Rightarrow> py_value \<Rightarrow> string \<Rightarrow> ('p, 'd) world \<Rightarrow> int result \<times> ('p, 'd) world" where
  "ThreadSafeStdout_write_with_mimetype getsizeof dat mimetype w =
     (case cell_id w of
        None \<Rightarrow> (Raise AssertionError, w)
      | Some cid \<Rightarrow>
          (case dat of
             PyStr s \<Rightarrow>
               (case std_stream_max_bytes (runtime_context w) of
                  Inl e \<Rightarrow> (Raise e, w)
                | Inr max_bytes \<Rightarrow>
                    let (s', w1) =
                          (if getsizeof s > max_bytes
                           then (py_slice_to max_bytes s @ truncation_marker,
                                 emit (SysStderrWrite truncation_warning) w)
                           else (s, w))
                    in if \<not> redirect_console w1
                       then (Raise (AttributeError ''console_msg_queue''), w1)
                       else
                         let w2 = queue_append
                                    (Some \<lparr>msg_stream = STDOUT, msg_cell_id = cid,
                                           msg_data = s', msg_mimetype = mimetype\<rparr>) w1;
                             (r, w3) = with_console_msg_cv notify w2
                         in (case r of
                               Return _ \<Rightarrow> (Return (int (length s')), w3)
                             | Raise e \<Rightarrow> (Raise e, w3)
                             | Blocked \<Rightarrow> (Blocked, w3)))
           | _ \<Rightarrow>
               (Raise (TypeError (''write() argument must be a str, not '' @ type_name dat)), w)))"

text \<open>\<^verbatim>\<open>ThreadSafeStderr._write_with_mimetype\<close>.\<close>

definition ThreadSafeStderr_write_with_mimetype ::
  "(string \<Rightarrow> int) \<Rightarrow> py_value \<Rightarrow> string \<Rightarrow> ('p, 'd) world \<Rightarrow> int result \<times> ('p, 'd) world" where
  "ThreadSafeStderr_write_with_mimetype getsizeof dat mimetype w =
     (case cell_id w of
        None \<Rightarrow> (Raise AssertionError, w)
      | Some cid \<Rightarrow>
          (case dat of
             PyStr s \<Rightarrow>
               (case std_stream_max_bytes (runtime_context w) of
                  Inl e \<Rightarrow> (Raise e, w)
                | Inr max_bytes \<Rightarrow>
                    let s' = (if getsizeof s > max_bytes
                              then truncation_warning @ py_slice_to max_bytes s @ truncation_marker
                              else s);
                        (r, w1) =
                          with_console_msg_cv
                            (\<lambda>v. notify
                                   (queue_append
                                      (Some \<lparr>msg_stream = STDERR, msg_cell_id = cid,
                                             msg_data = s', msg_mimetype = mimetype\<rparr>) v)) w
                    in (case r of
                          Return _ \<Rightarrow> (Return (int (length s')), w1)
                        | Raise e \<Rightarrow> (Raise e, w1)
                        | Blocked \<Rightarrow> (Blocked, w1)))
           | _ \<Rightarrow>
               (Raise (TypeError (''write() argument must be a str, not '' @ type_name dat)), w)))"

subsection \<open>The source\<close>

text \<open>
  \<^verbatim>\<open>ThreadSafeStdin._readline_with_prompt\<close>. \<^verbatim>\<open>input_queue.get()\<close> has no
  timeout: on an empty queue the call does not return.
\<close>

definition ThreadSafeStdin_readline_with_prompt ::
  "(string \<Rightarrow> int) \<Rightarrow> py_value \<Rightarrow> ('p, 'd) world \<Rightarrow> string result \<times> ('p, 'd) world" where
  "ThreadSafeStdin_readline_with_prompt getsizeof prompt w =
     (case cell_id w of
        None \<Rightarrow> (Raise AssertionError, w)
      | Some cid \<Rightarrow>
          (case prompt of
             PyStr s \<Rightarrow>
               (case std_stream_max_bytes (runtime_context w) of
                  Inl e \<Rightarrow> (Raise e, w)
                | Inr max_bytes \<Rightarrow>
                    let s' = (if getsizeof s > max_bytes
                              then truncation_warning @ py_slice_to max_bytes s @ truncation_marker
                              else s);
                        (r, w1) =
                          with_console_msg_cv
                            (\<lambda>v. notify
                                   (queue_append
                                      (Some \<lparr>msg_stream = STDIN, msg_cell_id = cid,
                                             msg_data = s', msg_mimetype = ''text/plain''\<rparr>) v)) w
                    in (case r of
                          Return _ \<Rightarrow>
                            (case input_queue w1 of
                               [] \<Rightarrow> (Blocked, w1)
                             | reply # rest \<Rightarrow>
                                 (Return reply,
                                  emit (InputQueueGet reply) (w1\<lparr>input_queue := rest\<rparr>)))
                        | Raise e \<Rightarrow> (Raise e, w1)
                        | Blocked \<Rightarrow> (Blocked, w1)))
           | _ \<Rightarrow> (Raise (TypeError (''prompt must be a str, not '' @ type_name prompt)), w)))"

text \<open>\<^verbatim>\<open>readline\<close> and \<^verbatim>\<open>readlines\<close> drop their argument.\<close>

definition ThreadSafeStdin_readline ::
  "(string \<Rightarrow> int) \<Rightarrow> int option \<Rightarrow> ('p, 'd) world \<Rightarrow> string result \<times> ('p, 'd) world" where
  "ThreadSafeStdin_readline getsizeof sz w =
     ThreadSafeStdin_readline_with_prompt getsizeof (PyStr []) w"

definition ThreadSafeStdin_readlines ::
  "(string \<Rightarrow> int) \<Rightarrow> int option \<Rightarrow> ('p, 'd) world \<Rightarrow> string list result \<times> ('p, 'd) world" where
  "ThreadSafeStdin_readlines getsizeof hint w =
     (case ThreadSafeStdin_readline_with_prompt getsizeof (PyStr []) w of
        (Return reply, w1) \<Rightarrow> (Return (split_newline reply), w1)
      | (Raise e, w1) \<Rightarrow> (Raise e, w1)
      | (Blocked, w1) \<Rightarrow> (Blocked, w1))"

text \<open>
  \<^verbatim>\<open>ThreadSafeStream.__init__\<close>: a fresh stream, its locks free and its buffer empty,
  in a process whose runtime context is \<open>g\<close>. The thread it starts runs the drain
  worker, which is not part of the module.
\<close>

definition ThreadSafeStream_init ::
  "'p \<Rightarrow> string list \<Rightarrow> bool \<Rightarrow> CellId_t option \<Rightarrow> RuntimeContext option \<Rightarrow> ('p, 'd) world" where
  "ThreadSafeStream_init p inq redirect cid g =
     \<lparr>pipe = p, cell_id = cid, redirect_console = redirect, stream_lock = False,
      console_msg_cv = False, console_msg_queue = [], input_queue = inq,
      runtime_context = g, trace = []\<rparr>"

subsection \<open>The forwarding loop\<close>

text \<open>
  \<^verbatim>\<open>_forward_os_stream\<close> runs on a thread of its own, against an environment that sets
  the exit flag and feeds the pipe. One step of the environment is what one turn of the
  loop observes: either \<^verbatim>\<open>should_exit.is_set()\<close> is true, or it is false and
  \<^verbatim>\<open>os.read(fd, 1024)\<close> returns a chunk (of at most 1024 bytes, empty once the far
  end is closed) or raises. When the environment has nothing more to offer, the thread
  waits in \<^verbatim>\<open>os.read\<close>: the call is \<open>Blocked\<close>. \<^verbatim>\<open>bytes.decode\<close> and the sink's
  \<^verbatim>\<open>write\<close> are parameters; the sink has a state of its own.
\<close>

type_synonym bytes = "char list"

datatype env_step = ExitSet | Read "exn + bytes"

fun forward_loop ::
  "(bytes \<Rightarrow> exn + string) \<Rightarrow> ('s \<Rightarrow> string \<Rightarrow> exn option \<times> 's) \<Rightarrow> env_step list \<Rightarrow> 's
     \<Rightarrow> unit result \<times> 's" where
  "forward_loop decode sink_write [] s = (Blocked, s)"
| "forward_loop decode sink_write (ExitSet # rest) s = (Return (), s)"
| "forward_loop decode sink_write (Read (Inl e) # rest) s = (Raise e, s)"
| "forward_loop decode sink_write (Read (Inr dat) # rest) s =
     (if dat = [] then (Return (), s)
      else
        (case decode dat of
           Inl e \<Rightarrow> (Raise e, s)
         | Inr txt \<Rightarrow>
             (case sink_write s txt of
                (Some e, s') \<Rightarrow> (Raise e, s')
              | (None, s') \<Rightarrow> forward_loop decode sink_write rest s')))"

text \<open>The \<^verbatim>\<open>try\<close> is around the whole loop, and it catches \<^verbatim>\<open>Exception\<close>.\<close>

definition forward_os_stream ::
  "(bytes \<Rightarrow> exn + string) \<Rightarrow> ('s \<Rightarrow> string \<Rightarrow> exn option \<times> 's) \<Rightarrow> env_step list \<Rightarrow> 's
     \<Rightarrow> unit result \<times> 's" where
  "forward_os_stream decode sink_write script s =
     (case forward_loop decode sink_write script s of
        (Raise e, s') \<Rightarrow> (if isinstance_Exception e then (Return (), s') else (Raise e, s'))
      | (r, s') \<Rightarrow> (r, s'))"

subsection \<open>The watcher and the redirect scope\<close>

text \<open>
  The descriptor table of the process: slot \<open>i\<close> holds the open file that descriptor
  \<open>i\<close> refers to. \<^verbatim>\<open>os.dup\<close> takes the lowest free descriptor. The calls fail with
  \<^verbatim>\<open>EBADF\<close> on a descriptor that is not open; the table has no upper limit.
\<close>

datatype open_file = StdFile string | PipeReadEnd nat | PipeWriteEnd nat

type_synonym fd_table = "open_file option list"

definition fd_lookup :: "fd_table \<Rightarrow> nat \<Rightarrow> open_file option" where
  "fd_lookup t i = (if i < length t then t ! i else None)"

definition fd_assign :: "fd_table \<Rightarrow> nat \<Rightarrow> open_file option \<Rightarrow> fd_table" where
  "fd_assign t i v =
     (if i < length t then t[i := v] else t @ replicate (i - length t) None @ [v])"

fun lowest_free :: "fd_table \<Rightarrow> nat" where
  "lowest_free [] = 0"
| "lowest_free (None # t) = 0"
| "lowest_free (Some f # t) = Suc (lowest_free t)"

definition os_dup :: "fd_table \<Rightarrow> nat \<Rightarrow> exn + nat \<times> fd_table" where
  "os_dup t i =
     (case fd_lookup t i of
        None \<Rightarrow> Inl (OSError ''Bad file descriptor'')
      | Some f \<Rightarrow> Inr (lowest_free t, fd_assign t (lowest_free t) (Some f)))"

definition os_dup2 :: "fd_table \<Rightarrow> nat \<Rightarrow> nat \<Rightarrow> exn + fd_table" where
  "os_dup2 t src dst =
     (case fd_lookup t src of
        None \<Rightarrow> Inl (OSError ''Bad file descriptor'')
      | Some f \<Rightarrow> Inr (fd_assign t dst (Some f)))"

definition os_close :: "fd_table \<Rightarrow> nat \<Rightarrow> exn + fd_table" where
  "os_close t i =
     (case fd_lookup t i of
        None \<Rightarrow> Inl (OSError ''Bad file descriptor'')
      | Some f \<Rightarrow> Inr (fd_assign t i None))"


datatype watcher_call = StartCalled | PauseCalled | StopCalled

text \<open>
  The process as the watcher sees it: the descriptor table, the attributes of one
  \<^verbatim>\<open>Watcher\<close> (\<^verbatim>\<open>fd_dup\<close> is an attribute only once \<^verbatim>\<open>start\<close> has set it), the
  \<^verbatim>\<open>_fileno\<close> of the sink it watches, and the calls of its methods so far.
\<close>

record process =
  fds :: fd_table
  watcher_fd :: nat
  read_fd :: nat
  write_fd :: nat
  fd_dup :: "nat option"
  should_exit :: bool
  fileno_attr :: "nat option"
  calls :: "watcher_call list"


definition Watcher_start :: "process \<Rightarrow> unit result \<times> process" where
  "Watcher_start s0 =
     (let s = s0\<lparr>calls := calls s0 @ [StartCalled]\<rparr> in
      case os_dup (fds s) (watcher_fd s) of
        Inl e \<Rightarrow> (Raise e, s)
      | Inr (d, t1) \<Rightarrow>
          (let s1 = s\<lparr>fds := t1, fd_dup := Some d, fileno_attr := Some d\<rparr> in
           case os_dup2 (fds s1) (write_fd s1) (watcher_fd s1) of
             Inl e \<Rightarrow> (Raise e, s1)
           | Inr t2 \<Rightarrow> (Return (), s1\<lparr>fds := t2\<rparr>)))"

definition Watcher_pause :: "process \<Rightarrow> unit result \<times> process" where
  "Watcher_pause s0 =
     (let s = s0\<lparr>calls := calls s0 @ [PauseCalled]\<rparr> in
      case fd_dup s of
        None \<Rightarrow> (Raise (AttributeError ''fd_dup''), s)
      | Some d \<Rightarrow>
          (case os_dup2 (fds s) d (watcher_fd s) of
             Inl e \<Rightarrow> (Raise e, s)
           | Inr t1 \<Rightarrow>
               (case os_close t1 d of
                  Inl e \<Rightarrow> (Raise e, s\<lparr>fds := t1\<rparr>)
                | Inr t2 \<Rightarrow> (Return (), s\<lparr>fds := t2, fileno_attr := None\<rparr>))))"

definition Watcher_stop :: "process \<Rightarrow> unit result \<times> process" where
  "Watcher_stop s0 =
     (let s = s0\<lparr>calls := calls s0 @ [StopCalled]\<rparr> in
      case os_close (fds s) (write_fd s) of
        Inl e \<Rightarrow> (Raise e, s)
      | Inr t1 \<Rightarrow>
          (case os_close t1 (read_fd s) of
             Inl e \<Rightarrow> (Raise e, s\<lparr>fds := t1\<rparr>)
           | Inr t2 \<Rightarrow> (Return (), s\<lparr>fds := t2, should_exit := True\<rparr>)))"

text \<open>
  \<^verbatim>\<open>redirect\<close>. The stream is watched when it is a \<^verbatim>\<open>ThreadSafeStdout\<close> or a
  \<^verbatim>\<open>ThreadSafeStderr\<close>. The body of the \<^verbatim>\<open>with\<close> statement runs at the \<^verbatim>\<open>yield\<close>:
  it ends normally or raises, and the \<^verbatim>\<open>finally\<close> clause runs either way, also when
  \<^verbatim>\<open>start\<close> itself raised (the body is then not run). An exception of the
  \<^verbatim>\<open>finally\<close> clause replaces the one on its way.
\<close>

datatype stream_kind = IsThreadSafeStdout | IsThreadSafeStderr | IsOtherStream

fun watched :: "stream_kind \<Rightarrow> bool" where
  "watched IsThreadSafeStdout = True"
| "watched IsThreadSafeStderr = True"
| "watched IsOtherStream = False"

definition redirect ::
  "stream_kind \<Rightarrow> (process \<Rightarrow> exn option \<times> process) \<Rightarrow> process \<Rightarrow> unit result \<times> process" where
  "redirect standard_stream body s =
     (let (r1, s1) = (if watched standard_stream then Watcher_start s else (Return (), s));
          (r2, s2) = (case r1 of
                        Return _ \<Rightarrow> (case body s1 of
                                       (None, s') \<Rightarrow> (Return (), s')
                                     | (Some e, s') \<Rightarrow> (Raise e, s'))
                      | _ \<Rightarrow> (r1, s1));
          (r3, s3) = (if watched standard_stream then Watcher_pause s2 else (Return (), s2))
      in (case r3 of Return _ \<Rightarrow> (r2, s3) | _ \<Rightarrow> (r3, s3)))"

subsection \<open>Properties and example instances\<close>

text \<open>
  The lock discipline of the console buffer, read off a trace: every append to the
  buffer and every notification happens between an acquisition of the condition's lock
  and its release. The first argument says whether the lock is held when the trace
  starts.
\<close>

fun guarded :: "bool \<Rightarrow> 'd event list \<Rightarrow> bool" where
  "guarded held [] = True"
| "guarded held (Acquire l # es) = guarded (l = ConsoleMsgCv \<or> held) es"
| "guarded held (Release l # es) = guarded (l \<noteq> ConsoleMsgCv \<and> held) es"
| "guarded held (QueueAppend m # es) = (held \<and> guarded held es)"
| "guarded held (Notify # es) = (held \<and> guarded held es)"
| "guarded held (SysStderrWrite v # es) = guarded held es"
| "guarded held (PipeSend op d # es) = guarded held es"
| "guarded held (LogDebug op e # es) = guarded held es"
| "guarded held (InputQueueGet v # es) = guarded held es"

text \<open>
  \<^verbatim>\<open>"\n".join(parts)\<close>, to say what splitting on newlines keeps.
\<close>

fun join_newline :: "string list \<Rightarrow> string" where
  "join_newline [] = []"
| "join_newline [p] = p"
| "join_newline (p # q # ps) = p @ CHR 0x0A # join_newline (q # ps)"


text \<open>
  Instances for the examples. The size CPython reports for a str of ASCII characters is
  a fixed header plus one byte per character (49 bytes of header on a 64-bit build).
  A pipe whose far end is gone raises an \<^verbatim>\<open>OSError\<close> on every send. The example
  decoder is \<^verbatim>\<open>bytes.decode("ascii")\<close>; the example sink records what it is given.
  The example stream buffers console output for the cell \<^verbatim>\<open>"cell"\<close>.
\<close>

definition ascii_getsizeof :: "string \<Rightarrow> int" where
  "ascii_getsizeof s = 49 + int (length s)"

definition broken_pipe_send :: "unit \<Rightarrow> string \<times> 'd \<Rightarrow> exn option \<times> unit" where
  "broken_pipe_send p m = (Some (OSError ''Broken pipe''), p)"

definition ascii_decode :: "bytes \<Rightarrow> exn + string" where
  "ascii_decode b = (if list_all (\<lambda>c. of_char c < (128 :: nat)) b then Inr b else Inl UnicodeDecodeError)"

definition recording_sink :: "string list \<Rightarrow> string \<Rightarrow> exn option \<times> string list" where
  "recording_sink s txt = (None, s @ [txt])"

definition example_stream :: "RuntimeContext option \<Rightarrow> (unit, unit) world" where
  "example_stream g = ThreadSafeStream_init () [] True (Some ''cell'') g"

definition limit_context :: "int \<Rightarrow> RuntimeContext option" where
  "limit_context m =
     Some \<lparr>marimo_config = \<lparr>runtime = \<lparr>cfg_output_max_bytes = 5000000,
                                        cfg_std_stream_max_bytes = m\<rparr>\<rparr>\<rparr>"





section \<open>Theorems\<close>

subsection \<open>The configured limits\<close>

lemma std_stream_max_bytes_returns:
  "std_stream_max_bytes g =
     Inr (case g of None \<Rightarrow> 1000000
          | Some ctx \<Rightarrow> cfg_std_stream_max_bytes (runtime (marimo_config ctx)))"
  by (simp add: std_stream_max_bytes_def get_context_def split: option.split)

lemma output_max_bytes_returns:
  "output_max_bytes g =
     Inr (case g of None \<Rightarrow> 5000000
          | Some ctx \<Rightarrow> cfg_output_max_bytes (runtime (marimo_config ctx)))"
  by (simp add: output_max_bytes_def get_context_def split: option.split)

text \<open>
  C6: \<^verbatim>\<open>std_stream_max_bytes()\<close> and \<^verbatim>\<open>output_max_bytes()\<close> never raise. Each returns
  its setting of the runtime context when the context is initialized, and the defaults
  1,000,000 and 5,000,000 when it is not.
\<close>

theorem max_bytes_lookups_never_raise:
  "std_stream_max_bytes g =
     Inr (case g of None \<Rightarrow> 1000000
          | Some ctx \<Rightarrow> cfg_std_stream_max_bytes (runtime (marimo_config ctx)))
   \<and> output_max_bytes g =
     Inr (case g of None \<Rightarrow> 5000000
          | Some ctx \<Rightarrow> cfg_output_max_bytes (runtime (marimo_config ctx)))"
proof
  show "std_stream_max_bytes g =
     Inr (case g of None \<Rightarrow> 1000000
          | Some ctx \<Rightarrow> cfg_std_stream_max_bytes (runtime (marimo_config ctx)))"
    by (rule std_stream_max_bytes_returns)
next
  show "output_max_bytes g =
     Inr (case g of None \<Rightarrow> 5000000
          | Some ctx \<Rightarrow> cfg_output_max_bytes (runtime (marimo_config ctx)))"
    by (rule output_max_bytes_returns)
qed

theorem max_bytes_lookups_never_raise_witness:
  "std_stream_max_bytes None = Inr 1000000 \<and> output_max_bytes None = Inr 5000000
   \<and> std_stream_max_bytes (limit_context 10) = Inr 10
   \<and> output_max_bytes (limit_context 10) = Inr 5000000"
  using max_bytes_lookups_never_raise [of None] max_bytes_lookups_never_raise [of "limit_context 10"]
  by (simp add: limit_context_def)

subsection \<open>The shared stream\<close>

lemma ThreadSafeStream_write_free:
  assumes "\<not> stream_lock w"
  shows "ThreadSafeStream_write send op dat w =
     (case send (pipe w) (op, dat) of
        (None, p') \<Rightarrow>
          (Return (), w\<lparr>pipe := p',
             trace := trace w @ [Acquire StreamLock, PipeSend op dat, Release StreamLock]\<rparr>)
      | (Some e, p') \<Rightarrow>
          (if isinstance_OSError e
           then (Return (), w\<lparr>pipe := p',
                   trace := trace w @ [Acquire StreamLock, PipeSend op dat, LogDebug op e,
                                       Release StreamLock]\<rparr>)
           else (Raise e, w\<lparr>pipe := p',
                   trace := trace w @ [Acquire StreamLock, PipeSend op dat, Release StreamLock]\<rparr>)))"
  using assms
  by (cases w)
     (simp add: ThreadSafeStream_write_def emit_def Let_def split: prod.splits option.splits)

lemma ThreadSafeStream_write_QueuePipe:
  assumes "\<not> stream_lock w" and "qp_maxsize (pipe w) = 0"
  shows "fst (ThreadSafeStream_write QueuePipe_send op dat w) = Return ()"
    and "qp_queue (pipe (snd (ThreadSafeStream_write QueuePipe_send op dat w)))
           = qp_queue (pipe w) @ [(op, dat)]"
  using assms
  by (simp_all add: ThreadSafeStream_write_free QueuePipe_send_def)

text \<open>
  C3: \<^verbatim>\<open>ThreadSafeStream.write\<close>, called when no other thread holds the stream lock,
  takes the lock, sends, and releases the lock whatever \<^verbatim>\<open>pipe.send\<close> does, for every
  message and every pipe. When the send fails with an \<^verbatim>\<open>OSError\<close> (the transport is
  closed or broken) the failure is logged and the call returns normally. The lock is
  free afterwards, so the next write is not blocked and reaches the pipe again.
\<close>

theorem ThreadSafeStream_write_swallows_OSError:
  assumes free: "\<not> stream_lock w"
  shows "case ThreadSafeStream_write send op dat w of
           (r, w') \<Rightarrow>
             r \<noteq> Blocked \<and> \<not> stream_lock w' \<and> pipe w' = snd (send (pipe w) (op, dat)) \<and>
             (\<exists>mid. trace w' =
                      trace w @ [Acquire StreamLock, PipeSend op dat] @ mid @ [Release StreamLock]) \<and>
             (\<forall>e. fst (send (pipe w) (op, dat)) = Some e \<and> isinstance_OSError e \<longrightarrow>
                   r = Return () \<and>
                   trace w' = trace w @ [Acquire StreamLock, PipeSend op dat, LogDebug op e,
                                         Release StreamLock]) \<and>
             (fst (send (pipe w) (op, dat)) = None \<longrightarrow> r = Return ()) \<and>
             fst (ThreadSafeStream_write send op2 dat2 w') \<noteq> Blocked \<and>
             pipe (snd (ThreadSafeStream_write send op2 dat2 w')) = snd (send (pipe w') (op2, dat2))"
proof -
  obtain x p' where snd: "send (pipe w) (op, dat) = (x, p')"
    by (cases "send (pipe w) (op, dat)")
  obtain r w' where res: "ThreadSafeStream_write send op dat w = (r, w')"
    by (cases "ThreadSafeStream_write send op dat w")
  have first: "r \<noteq> Blocked \<and> \<not> stream_lock w' \<and> pipe w' = p' \<and>
      (\<exists>mid. trace w' = trace w @ [Acquire StreamLock, PipeSend op dat] @ mid @ [Release StreamLock]) \<and>
      (\<forall>e. x = Some e \<and> isinstance_OSError e \<longrightarrow>
            r = Return () \<and>
            trace w' = trace w @ [Acquire StreamLock, PipeSend op dat, LogDebug op e, Release StreamLock]) \<and>
      (x = None \<longrightarrow> r = Return ())"
    using res snd free ThreadSafeStream_write_free [OF free, of send op dat]
    by (cases x) (auto split: if_splits)
  then have free': "\<not> stream_lock w'" by simp
  obtain y q where snd2: "send (pipe w') (op2, dat2) = (y, q)"
    by (cases "send (pipe w') (op2, dat2)")
  have second: "fst (ThreadSafeStream_write send op2 dat2 w') \<noteq> Blocked \<and>
      pipe (snd (ThreadSafeStream_write send op2 dat2 w')) = q"
    using snd2 ThreadSafeStream_write_free [OF free', of send op2 dat2]
    by (cases y) (auto split: if_splits)
  show ?thesis
    using res snd snd2 first second by auto
qed

theorem ThreadSafeStream_write_swallows_OSError_witness:
  "\<not> stream_lock (example_stream None)
   \<and> fst (ThreadSafeStream_write broken_pipe_send ''op'' () (example_stream None)) = Return ()
   \<and> \<not> stream_lock (snd (ThreadSafeStream_write broken_pipe_send ''op'' () (example_stream None)))
   \<and> trace (snd (ThreadSafeStream_write broken_pipe_send ''op'' () (example_stream None)))
       = [Acquire StreamLock, PipeSend ''op'' (), LogDebug ''op'' (OSError ''Broken pipe''),
          Release StreamLock]"
  using ThreadSafeStream_write_swallows_OSError
          [of "example_stream None" broken_pipe_send "''op''" "()" "''op''" "()"]
  by (simp add: example_stream_def ThreadSafeStream_init_def broken_pipe_send_def
        split: prod.splits)

subsection \<open>The sinks and the source, on a str\<close>

lemma stdout_write_str:
  assumes "cell_id w = Some cid" and "redirect_console w" and "\<not> console_msg_cv w"
    and "std_stream_max_bytes (runtime_context w) = Inr M"
  shows "ThreadSafeStdout_write_with_mimetype gs (PyStr s) mt w =
     (let s' = (if gs s > M then py_slice_to M s @ truncation_marker else s);
          m = Some \<lparr>msg_stream = STDOUT, msg_cell_id = cid, msg_data = s', msg_mimetype = mt\<rparr>
      in (Return (int (length s')),
          w\<lparr>console_msg_queue := console_msg_queue w @ [m],
            trace := trace w @ (if gs s > M then [SysStderrWrite truncation_warning] else [])
                       @ [QueueAppend m, Acquire ConsoleMsgCv, Notify, Release ConsoleMsgCv]\<rparr>))"
  using assms
  by (cases w)
     (simp add: ThreadSafeStdout_write_with_mimetype_def with_console_msg_cv_def queue_append_def
        notify_def emit_def Let_def)

lemma stderr_write_str:
  assumes "cell_id w = Some cid" and "redirect_console w" and "\<not> console_msg_cv w"
    and "std_stream_max_bytes (runtime_context w) = Inr M"
  shows "ThreadSafeStderr_write_with_mimetype gs (PyStr s) mt w =
     (let s' = (if gs s > M then truncation_warning @ py_slice_to M s @ truncation_marker else s);
          m = Some \<lparr>msg_stream = STDERR, msg_cell_id = cid, msg_data = s', msg_mimetype = mt\<rparr>
      in (Return (int (length s')),
          w\<lparr>console_msg_queue := console_msg_queue w @ [m],
            trace := trace w @ [Acquire ConsoleMsgCv, QueueAppend m, Notify, Release ConsoleMsgCv]\<rparr>))"
  using assms
  by (cases w)
     (simp add: ThreadSafeStderr_write_with_mimetype_def with_console_msg_cv_def queue_append_def
        notify_def emit_def Let_def)

lemma readline_with_prompt_str:
  assumes "cell_id w = Some cid" and "redirect_console w" and "\<not> console_msg_cv w"
    and "std_stream_max_bytes (runtime_context w) = Inr M"
    and "input_queue w = reply # rest"
  shows "ThreadSafeStdin_readline_with_prompt gs (PyStr s) w =
     (let s' = (if gs s > M then truncation_warning @ py_slice_to M s @ truncation_marker else s);
          m = Some \<lparr>msg_stream = STDIN, msg_cell_id = cid, msg_data = s',
                    msg_mimetype = ''text/plain''\<rparr>
      in (Return reply,
          w\<lparr>console_msg_queue := console_msg_queue w @ [m], input_queue := rest,
            trace := trace w @ [Acquire ConsoleMsgCv, QueueAppend m, Notify, Release ConsoleMsgCv,
                                InputQueueGet reply]\<rparr>))"
  using assms
  by (cases w)
     (simp add: ThreadSafeStdin_readline_with_prompt_def with_console_msg_cv_def queue_append_def
        notify_def emit_def Let_def)

lemma py_slice_to_length: "0 \<le> M \<Longrightarrow> int (length (py_slice_to M s)) \<le> M"
  by (simp add: py_slice_to_def)

lemma truncation_warning_length: "length truncation_warning = 55"
  by (simp add: truncation_warning_def)

lemma truncation_marker_length: "length truncation_marker = 5"
  by (simp add: truncation_marker_def)

subsection \<open>Splitting on newlines\<close>

lemma split_on_nonempty: "split_on sep acc s \<noteq> []"
  by (induction s arbitrary: acc) auto

lemma join_newline_Cons:
  "xs \<noteq> [] \<Longrightarrow> join_newline (p # xs) = p @ CHR 0x0A # join_newline xs"
  by (cases xs) auto

lemma split_on_join: "join_newline (split_on (CHR 0x0A) acc s) = rev acc @ s"
  by (induction s arbitrary: acc) (auto simp: join_newline_Cons split_on_nonempty)

lemma split_on_no_sep:
  "p \<in> set (split_on sep acc s) \<Longrightarrow> sep \<notin> set acc \<Longrightarrow> sep \<notin> set p"
  by (induction s arbitrary: acc) (fastforce split: if_splits)+

lemma split_newline_join: "join_newline (split_newline s) = s"
  by (simp add: split_newline_def split_on_join)

lemma split_newline_pieces: "p \<in> set (split_newline s) \<Longrightarrow> CHR 0x0A \<notin> set p"
  unfolding split_newline_def by (rule split_on_no_sep) auto

subsection \<open>The lock of the console buffer\<close>

lemma example_stream_fields:
  "cell_id (example_stream g) = Some ''cell''" "redirect_console (example_stream g)"
  "\<not> console_msg_cv (example_stream g)" "runtime_context (example_stream g) = g"
  "console_msg_queue (example_stream g) = []" "trace (example_stream g) = []"
  "input_queue (example_stream g) = []" "\<not> stream_lock (example_stream g)"
  by (simp_all add: example_stream_def ThreadSafeStream_init_def)

lemma limit_context_max: "std_stream_max_bytes (limit_context m) = Inr m"
  by (simp add: std_stream_max_bytes_returns limit_context_def)

text \<open>
  C1: every append to the console buffer and every notification of its condition, by
  the write of the stdout sink, the write of the stderr sink and the stop of the stream,
  happens while the lock of the condition is held. The stderr sink keeps to it. The
  stdout sink and \<^verbatim>\<open>stop\<close> do not: both append first and take the lock afterwards,
  for the notification alone.
\<close>

theorem stdout_write_and_stop_append_outside_the_lock:
  "trace (snd (ThreadSafeStdout_write_with_mimetype ascii_getsizeof (PyStr ''hi'') ''text/plain''
                 (example_stream None)))
     = [QueueAppend (Some \<lparr>msg_stream = STDOUT, msg_cell_id = ''cell'', msg_data = ''hi'',
                            msg_mimetype = ''text/plain''\<rparr>),
        Acquire ConsoleMsgCv, Notify, Release ConsoleMsgCv]
   \<and> \<not> guarded False (trace (snd (ThreadSafeStdout_write_with_mimetype ascii_getsizeof
                                      (PyStr ''hi'') ''text/plain'' (example_stream None))))
   \<and> trace (snd (ThreadSafeStream_stop (example_stream None)))
     = [QueueAppend None, Acquire ConsoleMsgCv, Notify, Release ConsoleMsgCv]
   \<and> \<not> guarded False (trace (snd (ThreadSafeStream_stop (example_stream None))))
   \<and> trace (snd (ThreadSafeStderr_write_with_mimetype ascii_getsizeof (PyStr ''hi'') ''text/plain''
                 (example_stream None)))
     = [Acquire ConsoleMsgCv,
        QueueAppend (Some \<lparr>msg_stream = STDERR, msg_cell_id = ''cell'', msg_data = ''hi'',
                            msg_mimetype = ''text/plain''\<rparr>),
        Notify, Release ConsoleMsgCv]
   \<and> guarded False (trace (snd (ThreadSafeStderr_write_with_mimetype ascii_getsizeof
                                   (PyStr ''hi'') ''text/plain'' (example_stream None))))"
proof -
  have m: "std_stream_max_bytes (runtime_context (example_stream None)) = Inr 1000000"
    by (simp add: example_stream_fields std_stream_max_bytes_returns)
  have out: "trace (snd (ThreadSafeStdout_write_with_mimetype ascii_getsizeof (PyStr ''hi'')
                 ''text/plain'' (example_stream None)))
     = [QueueAppend (Some \<lparr>msg_stream = STDOUT, msg_cell_id = ''cell'', msg_data = ''hi'',
                            msg_mimetype = ''text/plain''\<rparr>),
        Acquire ConsoleMsgCv, Notify, Release ConsoleMsgCv]"
    by (simp add: stdout_write_str [OF example_stream_fields(1-3) m] ascii_getsizeof_def
          example_stream_fields Let_def)
  have err: "trace (snd (ThreadSafeStderr_write_with_mimetype ascii_getsizeof (PyStr ''hi'')
                 ''text/plain'' (example_stream None)))
     = [Acquire ConsoleMsgCv,
        QueueAppend (Some \<lparr>msg_stream = STDERR, msg_cell_id = ''cell'', msg_data = ''hi'',
                            msg_mimetype = ''text/plain''\<rparr>),
        Notify, Release ConsoleMsgCv]"
    by (simp add: stderr_write_str [OF example_stream_fields(1-3) m] ascii_getsizeof_def
          example_stream_fields Let_def)
  have stop: "trace (snd (ThreadSafeStream_stop (example_stream None)))
     = [QueueAppend None, Acquire ConsoleMsgCv, Notify, Release ConsoleMsgCv]"
    by (simp add: ThreadSafeStream_stop_def with_console_msg_cv_def queue_append_def notify_def
          emit_def example_stream_def ThreadSafeStream_init_def)
  show ?thesis
    unfolding out err stop by simp
qed

subsection \<open>Violations of the contract\<close>

text \<open>
  C7, as the code has it: a sink write or a \<^verbatim>\<open>_readline_with_prompt\<close> on a stream with
  no \<^verbatim>\<open>cell_id\<close> fails the assertion, whatever its argument is; with a \<^verbatim>\<open>cell_id\<close>
  bound and an argument that is not a str, it raises \<^verbatim>\<open>TypeError\<close> naming the type
  of the argument. Either way the call ends there: the state is as it was.
\<close>

theorem contract_violations_raise:
  "(cell_id w = None \<longrightarrow>
      ThreadSafeStdout_write_with_mimetype gs dat mt w = (Raise AssertionError, w) \<and>
      ThreadSafeStderr_write_with_mimetype gs dat mt w = (Raise AssertionError, w) \<and>
      ThreadSafeStdin_readline_with_prompt gs dat w = (Raise AssertionError, w))
   \<and> (cell_id w \<noteq> None \<and> (\<forall>s. dat \<noteq> PyStr s) \<longrightarrow>
      ThreadSafeStdout_write_with_mimetype gs dat mt w =
        (Raise (TypeError (''write() argument must be a str, not '' @ type_name dat)), w) \<and>
      ThreadSafeStderr_write_with_mimetype gs dat mt w =
        (Raise (TypeError (''write() argument must be a str, not '' @ type_name dat)), w) \<and>
      ThreadSafeStdin_readline_with_prompt gs dat w =
        (Raise (TypeError (''prompt must be a str, not '' @ type_name dat)), w))"
proof (intro conjI impI)
  assume "cell_id w = None"
  then show "ThreadSafeStdout_write_with_mimetype gs dat mt w = (Raise AssertionError, w)"
    by (simp add: ThreadSafeStdout_write_with_mimetype_def)
next
  assume "cell_id w = None"
  then show "ThreadSafeStderr_write_with_mimetype gs dat mt w = (Raise AssertionError, w)"
    by (simp add: ThreadSafeStderr_write_with_mimetype_def)
next
  assume "cell_id w = None"
  then show "ThreadSafeStdin_readline_with_prompt gs dat w = (Raise AssertionError, w)"
    by (simp add: ThreadSafeStdin_readline_with_prompt_def)
next
  assume a: "cell_id w \<noteq> None \<and> (\<forall>s. dat \<noteq> PyStr s)"
  then show "ThreadSafeStdout_write_with_mimetype gs dat mt w =
        (Raise (TypeError (''write() argument must be a str, not '' @ type_name dat)), w)"
    by (cases dat) (auto simp: ThreadSafeStdout_write_with_mimetype_def)
next
  assume a: "cell_id w \<noteq> None \<and> (\<forall>s. dat \<noteq> PyStr s)"
  then show "ThreadSafeStderr_write_with_mimetype gs dat mt w =
        (Raise (TypeError (''write() argument must be a str, not '' @ type_name dat)), w)"
    by (cases dat) (auto simp: ThreadSafeStderr_write_with_mimetype_def)
next
  assume a: "cell_id w \<noteq> None \<and> (\<forall>s. dat \<noteq> PyStr s)"
  then show "ThreadSafeStdin_readline_with_prompt gs dat w =
        (Raise (TypeError (''prompt must be a str, not '' @ type_name dat)), w)"
    by (cases dat) (auto simp: ThreadSafeStdin_readline_with_prompt_def)
qed

theorem contract_violations_raise_witness:
  "ThreadSafeStdout_write_with_mimetype ascii_getsizeof (PyBytes ''raw'') ''text/plain''
       (example_stream None)
     = (Raise (TypeError ''write() argument must be a str, not bytes''), example_stream None)
   \<and> ThreadSafeStdin_readline_with_prompt ascii_getsizeof (PyInt 42) (example_stream None)
     = (Raise (TypeError ''prompt must be a str, not int''), example_stream None)
   \<and> ThreadSafeStderr_write_with_mimetype ascii_getsizeof (PyStr ''x'') ''text/plain''
       (ThreadSafeStream_init () [] True None None :: (unit, unit) world)
     = (Raise AssertionError, ThreadSafeStream_init () [] True None None)"
  using contract_violations_raise [of "example_stream None" ascii_getsizeof "PyBytes ''raw''" "''text/plain''"]
    contract_violations_raise [of "example_stream None" ascii_getsizeof "PyInt 42" "''text/plain''"]
    contract_violations_raise [of "ThreadSafeStream_init () [] True None None :: (unit, unit) world"
       ascii_getsizeof "PyStr ''x''" "''text/plain''"]
  by (simp add: example_stream_fields ThreadSafeStream_init_def)

text \<open>
  The assertion comes first: an argument that is not a str, given to a stream with no
  \<^verbatim>\<open>cell_id\<close>, fails the assertion and raises no \<^verbatim>\<open>TypeError\<close>.
\<close>

theorem non_str_without_cell_id_counterexample:
  "fst (ThreadSafeStdout_write_with_mimetype ascii_getsizeof (PyInt 42) ''text/plain''
          (ThreadSafeStream_init () [] True None None :: (unit, unit) world))
     = Raise AssertionError
   \<and> fst (ThreadSafeStdout_write_with_mimetype ascii_getsizeof (PyInt 42) ''text/plain''
          (ThreadSafeStream_init () [] True None None :: (unit, unit) world))
     \<noteq> Raise (TypeError ''write() argument must be a str, not int'')"
  by (simp add: ThreadSafeStdout_write_with_mimetype_def ThreadSafeStream_init_def)

subsection \<open>Truncation\<close>

text \<open>
  C4: on a payload over the limit the stderr sink emits one message whose data is the
  warning, then the truncated payload, then the marker, and writes nothing to
  \<^verbatim>\<open>sys.stderr\<close>; the stdout sink first writes the warning to \<^verbatim>\<open>sys.stderr\<close> and
  then emits a message that holds the truncated payload and the marker only.
\<close>

theorem sinks_truncate_differently:
  assumes cid: "cell_id w = Some cid" and red: "redirect_console w" and cv: "\<not> console_msg_cv w"
    and lim: "std_stream_max_bytes (runtime_context w) = Inr M" and over: "gs s > M"
  shows "ThreadSafeStderr_write_with_mimetype gs (PyStr s) mt w =
           (Return (int (length (truncation_warning @ py_slice_to M s @ truncation_marker))),
            w\<lparr>console_msg_queue := console_msg_queue w @
                   [Some \<lparr>msg_stream = STDERR, msg_cell_id = cid,
                          msg_data = truncation_warning @ py_slice_to M s @ truncation_marker,
                          msg_mimetype = mt\<rparr>],
              trace := trace w @
                   [Acquire ConsoleMsgCv,
                    QueueAppend (Some \<lparr>msg_stream = STDERR, msg_cell_id = cid,
                          msg_data = truncation_warning @ py_slice_to M s @ truncation_marker,
                          msg_mimetype = mt\<rparr>),
                    Notify, Release ConsoleMsgCv]\<rparr>)
       \<and> ThreadSafeStdout_write_with_mimetype gs (PyStr s) mt w =
           (Return (int (length (py_slice_to M s @ truncation_marker))),
            w\<lparr>console_msg_queue := console_msg_queue w @
                   [Some \<lparr>msg_stream = STDOUT, msg_cell_id = cid,
                          msg_data = py_slice_to M s @ truncation_marker,
                          msg_mimetype = mt\<rparr>],
              trace := trace w @
                   [SysStderrWrite truncation_warning,
                    QueueAppend (Some \<lparr>msg_stream = STDOUT, msg_cell_id = cid,
                          msg_data = py_slice_to M s @ truncation_marker,
                          msg_mimetype = mt\<rparr>),
                    Acquire ConsoleMsgCv, Notify, Release ConsoleMsgCv]\<rparr>)"
proof
  show "ThreadSafeStderr_write_with_mimetype gs (PyStr s) mt w =
           (Return (int (length (truncation_warning @ py_slice_to M s @ truncation_marker))),
            w\<lparr>console_msg_queue := console_msg_queue w @
                   [Some \<lparr>msg_stream = STDERR, msg_cell_id = cid,
                          msg_data = truncation_warning @ py_slice_to M s @ truncation_marker,
                          msg_mimetype = mt\<rparr>],
              trace := trace w @
                   [Acquire ConsoleMsgCv,
                    QueueAppend (Some \<lparr>msg_stream = STDERR, msg_cell_id = cid,
                          msg_data = truncation_warning @ py_slice_to M s @ truncation_marker,
                          msg_mimetype = mt\<rparr>),
                    Notify, Release ConsoleMsgCv]\<rparr>)"
    using over by (simp add: stderr_write_str [OF cid red cv lim] Let_def)
next
  show "ThreadSafeStdout_write_with_mimetype gs (PyStr s) mt w =
           (Return (int (length (py_slice_to M s @ truncation_marker))),
            w\<lparr>console_msg_queue := console_msg_queue w @
                   [Some \<lparr>msg_stream = STDOUT, msg_cell_id = cid,
                          msg_data = py_slice_to M s @ truncation_marker,
                          msg_mimetype = mt\<rparr>],
              trace := trace w @
                   [SysStderrWrite truncation_warning,
                    QueueAppend (Some \<lparr>msg_stream = STDOUT, msg_cell_id = cid,
                          msg_data = py_slice_to M s @ truncation_marker,
                          msg_mimetype = mt\<rparr>),
                    Acquire ConsoleMsgCv, Notify, Release ConsoleMsgCv]\<rparr>)"
    using over by (simp add: stdout_write_str [OF cid red cv lim] Let_def)
qed

lemma ascii_over: "ascii_getsizeof ''hello world'' > 10"
  by (simp add: ascii_getsizeof_def)

theorem sinks_truncate_differently_witness:
  "cell_id (example_stream (limit_context 10)) = Some ''cell''
   \<and> redirect_console (example_stream (limit_context 10))
   \<and> \<not> console_msg_cv (example_stream (limit_context 10))
   \<and> std_stream_max_bytes (runtime_context (example_stream (limit_context 10))) = Inr 10
   \<and> ascii_getsizeof ''hello world'' > 10
   \<and> console_msg_queue (snd (ThreadSafeStderr_write_with_mimetype ascii_getsizeof
         (PyStr ''hello world'') ''text/plain'' (example_stream (limit_context 10))))
      = [Some \<lparr>msg_stream = STDERR, msg_cell_id = ''cell'',
               msg_data = ''Warning: marimo truncated a very large console output.\<newline>hello worl ... '',
               msg_mimetype = ''text/plain''\<rparr>]
   \<and> console_msg_queue (snd (ThreadSafeStdout_write_with_mimetype ascii_getsizeof
         (PyStr ''hello world'') ''text/plain'' (example_stream (limit_context 10))))
      = [Some \<lparr>msg_stream = STDOUT, msg_cell_id = ''cell'', msg_data = ''hello worl ... '',
               msg_mimetype = ''text/plain''\<rparr>]
   \<and> trace (snd (ThreadSafeStdout_write_with_mimetype ascii_getsizeof
         (PyStr ''hello world'') ''text/plain'' (example_stream (limit_context 10))))
      = [SysStderrWrite ''Warning: marimo truncated a very large console output.\<newline>'',
         QueueAppend (Some \<lparr>msg_stream = STDOUT, msg_cell_id = ''cell'',
               msg_data = ''hello worl ... '', msg_mimetype = ''text/plain''\<rparr>),
         Acquire ConsoleMsgCv, Notify, Release ConsoleMsgCv]"
proof -
  have lim: "std_stream_max_bytes (runtime_context (example_stream (limit_context 10))) = Inr 10"
    by (simp add: example_stream_fields limit_context_max)
  show ?thesis
    using sinks_truncate_differently
            [where w = "example_stream (limit_context 10)" and cid = "''cell''" and M = 10
               and gs = ascii_getsizeof and s = "''hello world''" and mt = "''text/plain''"]
    by (simp add: example_stream_fields limit_context_max ascii_over py_slice_to_def
          truncation_marker_def truncation_warning_def)
qed


text \<open>
  C2, as the code has it: for a limit \<open>M \<ge> 0\<close> and a payload whose size is over it,
  the stdout sink emits a message whose data is at most \<open>M\<close> plus the length of the
  marker long, and writes exactly one warning to \<^verbatim>\<open>sys.stderr\<close>; the stderr sink
  emits a message that starts with the warning, once, and whose data is at most \<open>M\<close>
  plus the length of the marker plus the length of the warning long.
\<close>

theorem truncated_write_size_bound:
  assumes cid: "cell_id w = Some cid" and red: "redirect_console w" and cv: "\<not> console_msg_cv w"
    and lim: "std_stream_max_bytes (runtime_context w) = Inr M" and over: "gs s > M"
    and nonneg: "0 \<le> M"
  shows "(\<exists>m. console_msg_queue (snd (ThreadSafeStdout_write_with_mimetype gs (PyStr s) mt w))
                = console_msg_queue w @ [Some m]
              \<and> msg_stream m = STDOUT
              \<and> int (length (msg_data m)) \<le> M + int (length truncation_marker)
              \<and> trace (snd (ThreadSafeStdout_write_with_mimetype gs (PyStr s) mt w))
                = trace w @ [SysStderrWrite truncation_warning, QueueAppend (Some m),
                             Acquire ConsoleMsgCv, Notify, Release ConsoleMsgCv])
       \<and> count_list (trace (snd (ThreadSafeStdout_write_with_mimetype gs (PyStr s) mt w)))
                     (SysStderrWrite truncation_warning)
           = count_list (trace w) (SysStderrWrite truncation_warning) + 1
       \<and> (\<exists>m rest. console_msg_queue (snd (ThreadSafeStderr_write_with_mimetype gs (PyStr s) mt w))
                = console_msg_queue w @ [Some m]
              \<and> msg_stream m = STDERR
              \<and> msg_data m = truncation_warning @ rest
              \<and> int (length rest) \<le> M + int (length truncation_marker)
              \<and> int (length (msg_data m))
                   \<le> M + int (length truncation_marker) + int (length truncation_warning)
              \<and> trace (snd (ThreadSafeStderr_write_with_mimetype gs (PyStr s) mt w))
                = trace w @ [Acquire ConsoleMsgCv, QueueAppend (Some m), Notify,
                             Release ConsoleMsgCv])"
proof -
  have len: "int (length (py_slice_to M s)) \<le> M"
    using nonneg by (rule py_slice_to_length)
  have out: "\<exists>m. console_msg_queue (snd (ThreadSafeStdout_write_with_mimetype gs (PyStr s) mt w))
                = console_msg_queue w @ [Some m]
              \<and> msg_stream m = STDOUT
              \<and> int (length (msg_data m)) \<le> M + int (length truncation_marker)
              \<and> trace (snd (ThreadSafeStdout_write_with_mimetype gs (PyStr s) mt w))
                = trace w @ [SysStderrWrite truncation_warning, QueueAppend (Some m),
                             Acquire ConsoleMsgCv, Notify, Release ConsoleMsgCv]"
    using over len
    by (intro exI [of _ "\<lparr>msg_stream = STDOUT, msg_cell_id = cid,
                           msg_data = py_slice_to M s @ truncation_marker, msg_mimetype = mt\<rparr>"])
       (simp add: stdout_write_str [OF cid red cv lim] Let_def)
  have cnt: "count_list (trace (snd (ThreadSafeStdout_write_with_mimetype gs (PyStr s) mt w)))
                     (SysStderrWrite truncation_warning)
           = count_list (trace w) (SysStderrWrite truncation_warning) + 1"
    using over by (simp add: stdout_write_str [OF cid red cv lim] Let_def)
  have err: "\<exists>m rest. console_msg_queue (snd (ThreadSafeStderr_write_with_mimetype gs (PyStr s) mt w))
                = console_msg_queue w @ [Some m]
              \<and> msg_stream m = STDERR
              \<and> msg_data m = truncation_warning @ rest
              \<and> int (length rest) \<le> M + int (length truncation_marker)
              \<and> int (length (msg_data m))
                   \<le> M + int (length truncation_marker) + int (length truncation_warning)
              \<and> trace (snd (ThreadSafeStderr_write_with_mimetype gs (PyStr s) mt w))
                = trace w @ [Acquire ConsoleMsgCv, QueueAppend (Some m), Notify,
                             Release ConsoleMsgCv]"
    using over len
    by (intro exI [of _ "\<lparr>msg_stream = STDERR, msg_cell_id = cid,
                           msg_data = truncation_warning @ py_slice_to M s @ truncation_marker,
                           msg_mimetype = mt\<rparr>"]
              exI [of _ "py_slice_to M s @ truncation_marker"])
       (simp add: stderr_write_str [OF cid red cv lim] Let_def)
  from out cnt err show ?thesis by blast
qed

theorem truncated_write_size_bound_witness:
  "cell_id (example_stream (limit_context 10)) = Some ''cell''
   \<and> redirect_console (example_stream (limit_context 10))
   \<and> \<not> console_msg_cv (example_stream (limit_context 10))
   \<and> std_stream_max_bytes (runtime_context (example_stream (limit_context 10))) = Inr 10
   \<and> ascii_getsizeof ''hello world'' > 10 \<and> (0 :: int) \<le> 10
   \<and> count_list (trace (snd (ThreadSafeStdout_write_with_mimetype ascii_getsizeof
         (PyStr ''hello world'') ''text/plain'' (example_stream (limit_context 10)))))
        (SysStderrWrite truncation_warning) = 1
   \<and> (\<exists>m. console_msg_queue (snd (ThreadSafeStdout_write_with_mimetype ascii_getsizeof
         (PyStr ''hello world'') ''text/plain'' (example_stream (limit_context 10)))) = [Some m]
         \<and> length (msg_data m) \<le> 15)"
  using truncated_write_size_bound
            [where w = "example_stream (limit_context 10)" and cid = "''cell''" and M = 10
               and gs = ascii_getsizeof and s = "''hello world''" and mt = "''text/plain''"]
  by (simp add: example_stream_fields limit_context_max ascii_over truncation_marker_length)
     blast

text \<open>
  With the limit at 10 the stderr sink turns the 11 characters of \<^verbatim>\<open>hello world\<close>
  into a message of 70 characters, more than the 10 + 5 of the bound without the
  warning.
\<close>

theorem stderr_truncated_data_exceeds_bound_counterexample:
  "ascii_getsizeof ''hello world'' > 10
   \<and> std_stream_max_bytes (runtime_context (example_stream (limit_context 10))) = Inr 10
   \<and> console_msg_queue (snd (ThreadSafeStderr_write_with_mimetype ascii_getsizeof
         (PyStr ''hello world'') ''text/plain'' (example_stream (limit_context 10))))
      = [Some \<lparr>msg_stream = STDERR, msg_cell_id = ''cell'',
               msg_data = ''Warning: marimo truncated a very large console output.\<newline>hello worl ... '',
               msg_mimetype = ''text/plain''\<rparr>]
   \<and> \<not> int (length ''Warning: marimo truncated a very large console output.\<newline>hello worl ... '')
         \<le> 10 + int (length truncation_marker)"
proof -
  have lim: "std_stream_max_bytes (runtime_context (example_stream (limit_context 10))) = Inr 10"
    by (simp add: example_stream_fields limit_context_max)
  show ?thesis
    by (simp add: stderr_write_str [OF example_stream_fields(1-3) lim] Let_def ascii_over
          example_stream_fields limit_context_max py_slice_to_def truncation_marker_def
          truncation_warning_def)
qed

text \<open>
  C10: a sink write returns the length of the data of the message it emitted. On a
  payload over the limit that is the length of the truncated payload plus the 5 of the
  marker for the stdout sink, and 55 more, for the warning, for the stderr sink; the
  latter is more than the length of the payload itself whenever the truncation removes
  fewer than 60 characters.
\<close>

theorem write_returns_emitted_length:
  assumes cid: "cell_id w = Some cid" and red: "redirect_console w" and cv: "\<not> console_msg_cv w"
    and lim: "std_stream_max_bytes (runtime_context w) = Inr M"
  shows "(\<exists>m. fst (ThreadSafeStdout_write_with_mimetype gs (PyStr s) mt w)
                = Return (int (length (msg_data m)))
              \<and> console_msg_queue (snd (ThreadSafeStdout_write_with_mimetype gs (PyStr s) mt w))
                = console_msg_queue w @ [Some m]
              \<and> msg_data m = (if gs s > M then py_slice_to M s @ truncation_marker else s))
       \<and> (\<exists>m. fst (ThreadSafeStderr_write_with_mimetype gs (PyStr s) mt w)
                = Return (int (length (msg_data m)))
              \<and> console_msg_queue (snd (ThreadSafeStderr_write_with_mimetype gs (PyStr s) mt w))
                = console_msg_queue w @ [Some m]
              \<and> msg_data m = (if gs s > M
                               then truncation_warning @ py_slice_to M s @ truncation_marker
                               else s))
       \<and> (gs s > M \<longrightarrow>
            fst (ThreadSafeStdout_write_with_mimetype gs (PyStr s) mt w)
              = Return (int (length (py_slice_to M s)) + 5)
          \<and> fst (ThreadSafeStderr_write_with_mimetype gs (PyStr s) mt w)
              = Return (55 + int (length (py_slice_to M s)) + 5))
       \<and> (gs s > M \<and> int (length s) < int (length (py_slice_to M s)) + 60 \<longrightarrow>
            (\<exists>n. fst (ThreadSafeStderr_write_with_mimetype gs (PyStr s) mt w) = Return n
                 \<and> int (length s) < n))"
proof -
  have out: "\<exists>m. fst (ThreadSafeStdout_write_with_mimetype gs (PyStr s) mt w)
                = Return (int (length (msg_data m)))
              \<and> console_msg_queue (snd (ThreadSafeStdout_write_with_mimetype gs (PyStr s) mt w))
                = console_msg_queue w @ [Some m]
              \<and> msg_data m = (if gs s > M then py_slice_to M s @ truncation_marker else s)"
    by (intro exI [of _ "\<lparr>msg_stream = STDOUT, msg_cell_id = cid,
             msg_data = (if gs s > M then py_slice_to M s @ truncation_marker else s),
             msg_mimetype = mt\<rparr>"])
       (simp add: stdout_write_str [OF cid red cv lim] Let_def)
  have err: "\<exists>m. fst (ThreadSafeStderr_write_with_mimetype gs (PyStr s) mt w)
                = Return (int (length (msg_data m)))
              \<and> console_msg_queue (snd (ThreadSafeStderr_write_with_mimetype gs (PyStr s) mt w))
                = console_msg_queue w @ [Some m]
              \<and> msg_data m = (if gs s > M
                               then truncation_warning @ py_slice_to M s @ truncation_marker
                               else s)"
    by (intro exI [of _ "\<lparr>msg_stream = STDERR, msg_cell_id = cid,
             msg_data = (if gs s > M then truncation_warning @ py_slice_to M s @ truncation_marker
                         else s),
             msg_mimetype = mt\<rparr>"])
       (simp add: stderr_write_str [OF cid red cv lim] Let_def)
  have lens: "gs s > M \<longrightarrow>
            fst (ThreadSafeStdout_write_with_mimetype gs (PyStr s) mt w)
              = Return (int (length (py_slice_to M s)) + 5)
          \<and> fst (ThreadSafeStderr_write_with_mimetype gs (PyStr s) mt w)
              = Return (55 + int (length (py_slice_to M s)) + 5)"
    by (simp add: stdout_write_str [OF cid red cv lim] stderr_write_str [OF cid red cv lim]
          Let_def truncation_marker_length truncation_warning_length)
  have more: "gs s > M \<and> int (length s) < int (length (py_slice_to M s)) + 60 \<longrightarrow>
            (\<exists>n. fst (ThreadSafeStderr_write_with_mimetype gs (PyStr s) mt w) = Return n
                 \<and> int (length s) < n)"
    using lens by auto
  from out err lens more show ?thesis by blast
qed

theorem write_returns_emitted_length_witness:
  "cell_id (example_stream (limit_context 10)) = Some ''cell''
   \<and> redirect_console (example_stream (limit_context 10))
   \<and> \<not> console_msg_cv (example_stream (limit_context 10))
   \<and> std_stream_max_bytes (runtime_context (example_stream (limit_context 10))) = Inr 10
   \<and> ascii_getsizeof ''hello world'' > 10
   \<and> fst (ThreadSafeStdout_write_with_mimetype ascii_getsizeof (PyStr ''hello world'')
            ''text/plain'' (example_stream (limit_context 10))) = Return 15
   \<and> fst (ThreadSafeStderr_write_with_mimetype ascii_getsizeof (PyStr ''hello world'')
            ''text/plain'' (example_stream (limit_context 10))) = Return 70
   \<and> length ''hello world'' = 11"
  using write_returns_emitted_length
            [where w = "example_stream (limit_context 10)" and cid = "''cell''" and M = 10
               and gs = ascii_getsizeof and s = "''hello world''" and mt = "''text/plain''"]
  by (simp add: example_stream_fields limit_context_max ascii_over py_slice_to_def)

subsection \<open>Reading a line\<close>

text \<open>
  C5: with a reply \<open>R\<close> at the head of the input queue, \<^verbatim>\<open>_readline_with_prompt\<close>
  appends one prompt message for the cell to the console buffer, then takes \<open>R\<close> off
  the queue and returns it as it is; \<^verbatim>\<open>readline\<close> is that call with the prompt
  \<^verbatim>\<open>""\<close>. \<^verbatim>\<open>readlines\<close> is the same call followed by a split of the reply at its
  newlines: the pieces hold no newline, joined by newlines they give the reply back, and
  \<^verbatim>\<open>"a\nb"\<close> gives \<^verbatim>\<open>["a", "b"]\<close>. The stream has a \<^verbatim>\<open>cell_id\<close> and a console
  buffer, and no other thread holds the lock of the condition.
\<close>

theorem readline_round_trip:
  assumes cid: "cell_id w = Some cid" and red: "redirect_console w" and cv: "\<not> console_msg_cv w"
    and q: "input_queue w = R # rest"
  shows "fst (ThreadSafeStdin_readline_with_prompt gs (PyStr P) w) = Return R
       \<and> (\<exists>m. msg_stream m = STDIN \<and> msg_cell_id m = cid
              \<and> console_msg_queue (snd (ThreadSafeStdin_readline_with_prompt gs (PyStr P) w))
                  = console_msg_queue w @ [Some m]
              \<and> trace (snd (ThreadSafeStdin_readline_with_prompt gs (PyStr P) w))
                  = trace w @ [Acquire ConsoleMsgCv, QueueAppend (Some m), Notify,
                               Release ConsoleMsgCv, InputQueueGet R])
       \<and> input_queue (snd (ThreadSafeStdin_readline_with_prompt gs (PyStr P) w)) = rest
       \<and> ThreadSafeStdin_readline gs sz w = ThreadSafeStdin_readline_with_prompt gs (PyStr []) w
       \<and> fst (ThreadSafeStdin_readline gs sz w) = Return R
       \<and> ThreadSafeStdin_readlines gs hint w
           = (Return (split_newline R), snd (ThreadSafeStdin_readline gs sz w))
       \<and> join_newline (split_newline R) = R
       \<and> (\<forall>p \<in> set (split_newline R). CHR 0x0A \<notin> set p)
       \<and> split_newline ''a\<newline>b'' = [''a'', ''b'']"
proof -
  obtain M where lim: "std_stream_max_bytes (runtime_context w) = Inr M"
    using std_stream_max_bytes_returns by blast
  note eq = readline_with_prompt_str [OF cid red cv lim q]
  have ret: "fst (ThreadSafeStdin_readline_with_prompt gs (PyStr P) w) = Return R" for P
    by (simp add: eq Let_def)
  have msg: "\<exists>m. msg_stream m = STDIN \<and> msg_cell_id m = cid
              \<and> console_msg_queue (snd (ThreadSafeStdin_readline_with_prompt gs (PyStr P) w))
                  = console_msg_queue w @ [Some m]
              \<and> trace (snd (ThreadSafeStdin_readline_with_prompt gs (PyStr P) w))
                  = trace w @ [Acquire ConsoleMsgCv, QueueAppend (Some m), Notify,
                               Release ConsoleMsgCv, InputQueueGet R]"
    by (intro exI [of _ "\<lparr>msg_stream = STDIN, msg_cell_id = cid,
             msg_data = (if gs P > M then truncation_warning @ py_slice_to M P @ truncation_marker
                         else P),
             msg_mimetype = ''text/plain''\<rparr>"])
       (simp add: eq Let_def)
  have inq: "input_queue (snd (ThreadSafeStdin_readline_with_prompt gs (PyStr P) w)) = rest"
    by (simp add: eq Let_def)
  have rl: "ThreadSafeStdin_readline gs sz w = ThreadSafeStdin_readline_with_prompt gs (PyStr []) w"
    by (simp add: ThreadSafeStdin_readline_def)
  have rls: "ThreadSafeStdin_readlines gs hint w
           = (Return (split_newline R), snd (ThreadSafeStdin_readline gs sz w))"
    by (simp add: ThreadSafeStdin_readlines_def ThreadSafeStdin_readline_def eq Let_def)
  have pieces: "\<forall>p \<in> set (split_newline R). CHR 0x0A \<notin> set p"
    using split_newline_pieces by blast
  have ex: "split_newline ''a\<newline>b'' = [''a'', ''b'']"
    by (simp add: split_newline_def)
  show ?thesis
    using ret [of P] ret [of "[]"] msg inq rl rls pieces ex split_newline_join [of R]
    by simp
qed

theorem readline_round_trip_witness:
  "cell_id (ThreadSafeStream_init () [''a\<newline>b''] True (Some ''cell'') None :: (unit, unit) world)
     = Some ''cell''
   \<and> redirect_console (ThreadSafeStream_init () [''a\<newline>b''] True (Some ''cell'') None
        :: (unit, unit) world)
   \<and> \<not> console_msg_cv (ThreadSafeStream_init () [''a\<newline>b''] True (Some ''cell'') None
        :: (unit, unit) world)
   \<and> input_queue (ThreadSafeStream_init () [''a\<newline>b''] True (Some ''cell'') None
        :: (unit, unit) world) = [''a\<newline>b'']
   \<and> fst (ThreadSafeStdin_readline ascii_getsizeof None
        (ThreadSafeStream_init () [''a\<newline>b''] True (Some ''cell'') None :: (unit, unit) world))
     = Return ''a\<newline>b''
   \<and> fst (ThreadSafeStdin_readlines ascii_getsizeof None
        (ThreadSafeStream_init () [''a\<newline>b''] True (Some ''cell'') None :: (unit, unit) world))
     = Return [''a'', ''b'']"
  using readline_round_trip
          [where w = "ThreadSafeStream_init () [''a\<newline>b''] True (Some ''cell'') None
                        :: (unit, unit) world"
             and cid = "''cell''" and R = "''a\<newline>b''" and rest = "[]"
             and gs = ascii_getsizeof and sz = None and hint = None and P = "[]"]
  by (simp add: ThreadSafeStream_init_def)

subsection \<open>The watcher and the redirect scope\<close>











lemma redirect_unwatched:
  "\<not> watched k \<Longrightarrow>
     redirect k body s =
       (case body s of (None, s') \<Rightarrow> (Return (), s') | (Some e, s') \<Rightarrow> (Raise e, s'))"
  by (simp add: redirect_def split: prod.splits option.splits)









subsection \<open>The forwarding loop\<close>

lemma forward_loop_stops:
  "ExitSet \<in> set script \<or> Read (Inr []) \<in> set script \<or> (\<exists>e. Read (Inl e) \<in> set script)
   \<Longrightarrow> fst (forward_loop decode wr script s) \<noteq> Blocked"
proof (induction script arbitrary: s)
  case Nil
  then show ?case by simp
next
  case (Cons st rest)
  show ?case
  proof (cases st)
    case ExitSet
    then show ?thesis by simp
  next
    case (Read r)
    show ?thesis
    proof (cases r)
      case (Inl e)
      with Read show ?thesis by simp
    next
      case (Inr dat)
      show ?thesis
      proof (cases "dat = []")
        case True
        with Read Inr show ?thesis by simp
      next
        case False
        with Cons.prems Read Inr
        have rest: "ExitSet \<in> set rest \<or> Read (Inr []) \<in> set rest \<or> (\<exists>e. Read (Inl e) \<in> set rest)"
          by auto
        show ?thesis
          using Read Inr False Cons.IH [OF rest]
          by (auto split: sum.splits prod.splits option.splits)
      qed
    qed
  qed
qed

lemma forward_loop_runs:
  assumes dec: "\<And>b. b \<noteq> [] \<Longrightarrow> \<exists>t. decode b = Inr t" and wr: "\<And>s t. fst (wr s t) = None"
  shows "ExitSet \<notin> set script \<Longrightarrow> Read (Inr []) \<notin> set script \<Longrightarrow> \<forall>e. Read (Inl e) \<notin> set script
    \<Longrightarrow> fst (forward_loop decode wr script s) = Blocked"
proof (induction script arbitrary: s)
  case Nil
  then show ?case by simp
next
  case (Cons st rest)
  show ?case
  proof (cases st)
    case ExitSet
    with Cons.prems show ?thesis by simp
  next
    case (Read r)
    show ?thesis
    proof (cases r)
      case (Inl e)
      with Read Cons.prems show ?thesis by auto
    next
      case (Inr dat)
      with Read Cons.prems have ne: "dat \<noteq> []" by auto
      obtain t where t: "decode dat = Inr t" using dec [OF ne] by blast
      obtain s' where s': "wr s t = (None, s')" using wr [of s t] by (cases "wr s t") auto
      have "fst (forward_loop decode wr rest s') = Blocked"
        using Cons by auto
      then show ?thesis using Read Inr ne t s' by simp
    qed
  qed
qed

lemma forward_os_stream_Blocked:
  "fst (forward_os_stream decode wr script s) = Blocked
     \<longleftrightarrow> fst (forward_loop decode wr script s) = Blocked"
  by (auto simp: forward_os_stream_def split: prod.splits result.splits if_splits)

text \<open>
  C8, as the code has it. No exception that is an instance of \<^verbatim>\<open>Exception\<close> leaves
  \<^verbatim>\<open>_forward_os_stream\<close>, whatever is read and whatever the decoder and the sink do.
  Turn by turn: the loop returns when the exit flag is set and when a read returns
  nothing; an exception of the read, of the decoder or of the sink is caught, discarded
  and ends the loop as well, and what the pipe holds after it is not forwarded;
  otherwise the decoded chunk goes to the sink and the loop goes on. So the loop is over
  as soon as the flag is set, a read is empty or a read raises, and a loop whose decoder
  and sink never raise is over only then.
\<close>

theorem forward_os_stream_contains_exceptions:
  "(\<forall>e s'. forward_os_stream decode wr script s = (Raise e, s') \<longrightarrow> \<not> isinstance_Exception e)
   \<and> (ExitSet \<in> set script \<or> Read (Inr []) \<in> set script \<or> (\<exists>e. Read (Inl e) \<in> set script)
        \<longrightarrow> fst (forward_os_stream decode wr script s) \<noteq> Blocked)
   \<and> ((\<forall>b. b \<noteq> [] \<longrightarrow> (\<exists>t. decode b = Inr t)) \<and> (\<forall>u t. fst (wr u t) = None)
        \<and> ExitSet \<notin> set script \<and> Read (Inr []) \<notin> set script \<and> (\<forall>e. Read (Inl e) \<notin> set script)
        \<longrightarrow> fst (forward_os_stream decode wr script s) = Blocked)
   \<and> forward_os_stream decode wr (ExitSet # rest) s = (Return (), s)
   \<and> forward_os_stream decode wr (Read (Inr []) # rest) s = (Return (), s)
   \<and> (isinstance_Exception e
        \<longrightarrow> forward_os_stream decode wr (Read (Inl e) # rest) s = (Return (), s))
   \<and> (dat \<noteq> [] \<and> decode dat = Inl e \<and> isinstance_Exception e
        \<longrightarrow> forward_os_stream decode wr (Read (Inr dat) # rest) s = (Return (), s))
   \<and> (dat \<noteq> [] \<and> decode dat = Inr decoded \<and> wr s decoded = (Some e, s1) \<and> isinstance_Exception e
        \<longrightarrow> forward_os_stream decode wr (Read (Inr dat) # rest) s = (Return (), s1))
   \<and> (dat \<noteq> [] \<and> decode dat = Inr decoded \<and> wr s decoded = (None, s1)
        \<longrightarrow> forward_os_stream decode wr (Read (Inr dat) # rest) s
            = forward_os_stream decode wr rest s1)"
proof (intro conjI)
  show "\<forall>e s'. forward_os_stream decode wr script s = (Raise e, s') \<longrightarrow> \<not> isinstance_Exception e"
    by (auto simp: forward_os_stream_def split: prod.splits result.splits if_splits)
next
  show "ExitSet \<in> set script \<or> Read (Inr []) \<in> set script \<or> (\<exists>e. Read (Inl e) \<in> set script)
        \<longrightarrow> fst (forward_os_stream decode wr script s) \<noteq> Blocked"
    using forward_loop_stops [of script decode wr s]
    by (simp add: forward_os_stream_Blocked)
next
  show "(\<forall>b. b \<noteq> [] \<longrightarrow> (\<exists>t. decode b = Inr t)) \<and> (\<forall>u t. fst (wr u t) = None)
        \<and> ExitSet \<notin> set script \<and> Read (Inr []) \<notin> set script \<and> (\<forall>e. Read (Inl e) \<notin> set script)
        \<longrightarrow> fst (forward_os_stream decode wr script s) = Blocked"
    using forward_loop_runs [of decode wr script s]
    by (simp add: forward_os_stream_Blocked)
qed (simp_all add: forward_os_stream_def)

theorem forward_os_stream_contains_exceptions_witness:
  "ExitSet \<in> set [Read (Inr ''ab''), ExitSet]
   \<and> fst (forward_os_stream ascii_decode recording_sink [Read (Inr ''ab''), ExitSet] [])
       \<noteq> Blocked
   \<and> isinstance_Exception UnicodeDecodeError
   \<and> [CHR 0xFF] \<noteq> [] \<and> ascii_decode [CHR 0xFF] = Inl UnicodeDecodeError
   \<and> forward_os_stream ascii_decode recording_sink [Read (Inr [CHR 0xFF]), Read (Inr ''cd'')] []
       = (Return (), [])
   \<and> ascii_decode ''ab'' = Inr ''ab'' \<and> recording_sink [] ''ab'' = (None, [''ab''])
   \<and> forward_os_stream ascii_decode recording_sink [Read (Inr ''ab''), ExitSet] []
       = (Return (), [''ab''])"
proof -
  have d1: "ascii_decode [CHR 0xFF] = Inl UnicodeDecodeError"
    by (simp add: ascii_decode_def)
  have d2: "ascii_decode ''ab'' = Inr ''ab''"
    by (simp add: ascii_decode_def)
  have r: "recording_sink [] ''ab'' = (None, [''ab''])"
    by (simp add: recording_sink_def)
  show ?thesis
    using forward_os_stream_contains_exceptions
            [where decode = ascii_decode and wr = recording_sink
               and script = "[Read (Inr ''ab''), ExitSet]" and s = "[]"
               and rest = "[Read (Inr ''cd'')]" and e = UnicodeDecodeError
               and dat = "[CHR 0xFF]" and decoded = "[]" and ?s1.0 = "[]"]
          forward_os_stream_contains_exceptions
            [where decode = ascii_decode and wr = recording_sink
               and script = "[]" and s = "[]"
               and rest = "[ExitSet]" and e = UnicodeDecodeError
               and dat = "''ab''" and decoded = "''ab''" and ?s1.0 = "[''ab'']"]
          forward_os_stream_contains_exceptions
            [where decode = ascii_decode and wr = recording_sink
               and script = "[]" and s = "[''ab'']"
               and rest = "[]" and e = UnicodeDecodeError
               and dat = "''ab''" and decoded = "''ab''" and ?s1.0 = "[''ab'']"]
    by (simp add: d1 d2 r)
qed

text \<open>
  A read that raises (the descriptor was closed under the thread) ends the loop: the
  flag is not set and no read was empty, yet the call returns, and the chunk that
  follows is never read.
\<close>

theorem read_failure_ends_loop_counterexample:
  "forward_os_stream ascii_decode recording_sink
      [Read (Inr ''ab''), Read (Inl (OSError ''Bad file descriptor'')), Read (Inr ''cd'')] []
     = (Return (), [''ab''])
   \<and> ExitSet \<notin> set [Read (Inr ''ab''), Read (Inl (OSError ''Bad file descriptor'')),
                      Read (Inr ''cd'')]
   \<and> Read (Inr []) \<notin> set [Read (Inr ''ab''), Read (Inl (OSError ''Bad file descriptor'')),
                            Read (Inr ''cd'')]"
  by (simp add: forward_os_stream_def ascii_decode_def recording_sink_def)

end
